theory Spec2Isabelle
  imports Complex_Main
begin

unbundle bit_operations_syntax

section \<open>JavaScript strings\<close>

text \<open>
  A JavaScript string is a sequence of UTF-16 code units. A code unit is a natural number
  here, so that the non-ASCII literals of the source (the cross mark of the error text) and
  the Unicode white space that \<^verbatim>\<open>trim\<close> removes are the values the program sees.
  \<open>lit\<close> reads an ASCII literal as a JavaScript string.
\<close>

type_synonym js_string = "nat list"

abbreviation (input) lit :: "string \<Rightarrow> js_string" where
  "lit s \<equiv> map of_char s"

text \<open>
  \<^verbatim>\<open>String.prototype.trim\<close> removes WhiteSpace and LineTerminator code points from both
  ends: TAB, LF, VT, FF, CR, SP, NBSP, U+1680, U+2000 to U+200A, U+2028, U+2029, U+202F,
  U+205F, U+3000 and U+FEFF.
\<close>

definition is_js_whitespace :: "nat \<Rightarrow> bool" where
  "is_js_whitespace c \<longleftrightarrow>
     (9 \<le> c \<and> c \<le> 13) \<or> c = 32 \<or> c = 160 \<or> c = 5760 \<or> (8192 \<le> c \<and> c \<le> 8202) \<or>
     c = 8232 \<or> c = 8233 \<or> c = 8239 \<or> c = 8287 \<or> c = 12288 \<or> c = 65279"

definition trim :: "js_string \<Rightarrow> js_string" where
  "trim s = rev (dropWhile is_js_whitespace (rev (dropWhile is_js_whitespace s)))"

text \<open>
  \<^verbatim>\<open>String.prototype.toLowerCase\<close>, on the letters A to Z and the capital letters of
  Latin-1. Letters beyond U+00FF are left as they are: none of them lower-cases to a string
  over the letters of the extension allow-list, so the allow-list check does not see the
  difference.
\<close>

definition lower_unit :: "nat \<Rightarrow> nat" where
  "lower_unit c =
     (if (65 \<le> c \<and> c \<le> 90) \<or> (192 \<le> c \<and> c \<le> 222 \<and> c \<noteq> 215) then c + 32 else c)"

definition toLowerCase :: "js_string \<Rightarrow> js_string" where
  "toLowerCase s = map lower_unit s"

text \<open>
  \<^verbatim>\<open>s.split(sep)\<close> for a separator of one code unit. The array is never empty, so
  \<^verbatim>\<open>pop()\<close> on it is its last element and never \<^verbatim>\<open>undefined\<close>.
\<close>

fun split :: "nat \<Rightarrow> js_string \<Rightarrow> js_string list" where
  "split sep [] = [[]]"
| "split sep (c # cs) =
     (if c = sep then [] # split sep cs
      else (case split sep cs of
              [] \<Rightarrow> [[c]]
            | w # ws \<Rightarrow> (c # w) # ws))"

text \<open>\<^verbatim>\<open>s.includes(sub)\<close>: \<open>sub\<close> occurs in \<open>s\<close> as a contiguous substring.\<close>

fun includes_str :: "js_string \<Rightarrow> js_string \<Rightarrow> bool" where
  "includes_str [] sub \<longleftrightarrow> sub = []"
| "includes_str (c # cs) sub \<longleftrightarrow> take (length sub) (c # cs) = sub \<or> includes_str cs sub"

text \<open>\<^verbatim>\<open>arr.join(sep)\<close>.\<close>

fun join :: "js_string \<Rightarrow> js_string list \<Rightarrow> js_string" where
  "join sep [] = []"
| "join sep [x] = x"
| "join sep (x # y # ys) = x @ sep @ join sep (y # ys)"

text \<open>
  The digits of a natural number in base \<open>b\<close> (up to 16, in lower case), as
  \<^verbatim>\<open>n.toString(b)\<close> and the string conversion of an integer print it.
\<close>

definition digit_unit :: "nat \<Rightarrow> nat" where
  "digit_unit d = (if d < 10 then 48 + d else 87 + d)"

function digits :: "nat \<Rightarrow> nat \<Rightarrow> js_string" where
  "digits b n = (if n < b \<or> b < 2 then [digit_unit n] else digits b (n div b) @ [digit_unit (n mod b)])"
  by pat_completeness auto
termination
  by (relation "measure (\<lambda>(b, n). n)") (auto simp: not_less intro: div_less_dividend)

declare digits.simps [simp del]

section \<open>Configuration\<close>

record js_file =
  file_name :: js_string
  file_size :: nat
  file_type :: js_string

definition maxFileSize :: nat where
  "maxFileSize = 10 * 1024 * 1024"

definition documents :: "js_string list" where
  "documents = [lit ''.pdf'', lit ''.docx'', lit ''.txt'', lit ''.md'']"

definition images :: "js_string list" where
  "images = [lit ''.jpg'', lit ''.jpeg'', lit ''.png'']"

definition code :: "js_string list" where
  "code = [lit ''.js'', lit ''.py'', lit ''.java'', lit ''.cpp'', lit ''.c'', lit ''.h'',
           lit ''.cs'', lit ''.html'', lit ''.css'', lit ''.json'', lit ''.xml'']"

section \<open>Formatting helpers\<close>

text \<open>
  \<^verbatim>\<open>formatFileSize(bytes)\<close> for an integer byte count. The source computes in doubles:
  \<^verbatim>\<open>i = Math.floor(Math.log(bytes) / Math.log(1024))\<close>, then
  \<^verbatim>\<open>Math.round(bytes / Math.pow(1024, i) * 100) / 100 + ' ' + sizes[i]\<close>.
  For integer byte counts up to \<open>2 ^ 41\<close> every step but the logarithm is
  exact in doubles (a division by a power of two, a product below \<open>2 ^ 53\<close>), and the
  quotient of the logarithms floors to the integer logarithm, \<open>floor_log\<close> below.
  \<^verbatim>\<open>Math.round\<close> rounds a half upwards; the number printed is \<open>m / 100\<close> for an
  integer \<open>m\<close>, which JavaScript prints with at most two decimals and no trailing zero.
  \<^verbatim>\<open>sizes[i]\<close> beyond the array is \<^verbatim>\<open>undefined\<close>, which the concatenation prints as
  the word "undefined".
\<close>

function floor_log :: "nat \<Rightarrow> nat \<Rightarrow> nat" where
  "floor_log k n = (if n < k \<or> k < 2 then 0 else Suc (floor_log k (n div k)))"
  by pat_completeness auto
termination
  by (relation "measure (\<lambda>(k, n). n)") (auto simp: not_less intro: div_less_dividend)

declare floor_log.simps [simp del]

definition round_half_up :: "nat \<Rightarrow> nat \<Rightarrow> nat" where
  "round_half_up a b = (2 * a + b) div (2 * b)"

definition hundredths_to_string :: "nat \<Rightarrow> js_string" where
  "hundredths_to_string m =
     digits 10 (m div 100) @
     (if m mod 100 = 0 then []
      else if m mod 10 = 0 then lit ''.'' @ digits 10 (m mod 100 div 10)
      else lit ''.'' @ [digit_unit (m mod 100 div 10), digit_unit (m mod 10)])"

definition sizes :: "js_string list" where
  "sizes = [lit ''Bytes'', lit ''KB'', lit ''MB'', lit ''GB'']"

definition formatFileSize :: "nat \<Rightarrow> js_string" where
  "formatFileSize bytes =
     (if bytes = 0 then lit ''0 Bytes''
      else
        let k = 1024;
            i = floor_log k bytes
        in hundredths_to_string (round_half_up (bytes * 100) (k ^ i)) @ lit '' '' @
           (if i < length sizes then sizes ! i else lit ''undefined''))"

section \<open>JSON values, errors and messages\<close>

text \<open>
  The value \<^verbatim>\<open>response.json()\<close> resolves to. A JSON number is kept as the rational it
  denotes; it is falsy exactly when it is zero. The pairs of an object carry distinct keys
  (the parser keeps one value for each key).
\<close>

datatype json =
    JNull
  | JBool bool
  | JNum rat
  | JStr js_string
  | JArr "json list"
  | JObj "(js_string \<times> json) list"

fun truthy :: "json \<Rightarrow> bool" where
  "truthy JNull = False"
| "truthy (JBool b) = b"
| "truthy (JNum q) = (q \<noteq> 0)"
| "truthy (JStr s) = (s \<noteq> [])"
| "truthy (JArr xs) = True"
| "truthy (JObj kvs) = True"

text \<open>
  A thrown value: an \<^verbatim>\<open>Error\<close> object with its \<^verbatim>\<open>message\<close> property, which is
  \<open>None\<close> when the thrown value has no such property.
\<close>

datatype js_error = JsError (error_message: "js_string option")

text \<open>
  \<^verbatim>\<open>value.key\<close> for the keys \<^verbatim>\<open>message\<close> and \<^verbatim>\<open>text\<close>: reading a property of
  \<^verbatim>\<open>null\<close> throws a TypeError (the text is V8's), an object gives the value stored
  under the key or \<^verbatim>\<open>undefined\<close> (\<open>None\<close>), and a string, number, boolean or array
  has neither property.
\<close>

fun get_prop :: "json \<Rightarrow> js_string \<Rightarrow> js_error + json option" where
  "get_prop JNull key =
     Inl (JsError (Some (lit ''Cannot read properties of null (reading '' @ [39] @ key @ [39] @ lit '')'')))"
| "get_prop (JObj kvs) key = Inr (map_of kvs key)"
| "get_prop v key = Inr None"

text \<open>\<^verbatim>\<open>a || b\<close>, where \<open>a\<close> may be \<^verbatim>\<open>undefined\<close>: \<open>a\<close> when it is truthy, else \<open>b\<close>.\<close>

definition js_or :: "json option \<Rightarrow> json \<Rightarrow> json" where
  "js_or a b = (case a of None \<Rightarrow> b | Some v \<Rightarrow> if truthy v then v else b)"

datatype msg_role = User | Assistant

record message =
  role :: msg_role
  content :: json
  file_info :: "js_file option"
  timestamp :: nat
  isError :: bool

section \<open>The chat endpoint\<close>

datatype form_value = FormText js_string | FormFile js_file

datatype request_body = FormData "(js_string \<times> form_value) list" | JsonBody json

record api_request =
  req_url :: js_string
  req_method :: js_string
  req_headers :: "(js_string \<times> js_string) list"
  req_body :: request_body

text \<open>
  What \<^verbatim>\<open>fetch\<close> resolves to: the status line, and what \<^verbatim>\<open>response.json()\<close> settles
  to (a SyntaxError on a malformed body). A rejected \<^verbatim>\<open>fetch\<close> is \<open>Inl\<close> of the error.
\<close>

record http_response =
  status :: nat
  statusText :: js_string
  json_result :: "js_error + json"

definition response_ok :: "http_response \<Rightarrow> bool" where
  "response_ok r \<longleftrightarrow> 200 \<le> status r \<and> status r \<le> 299"

type_synonym fetch_fn = "api_request \<Rightarrow> js_error + http_response"

definition apiEndpoint :: js_string where
  "apiEndpoint = lit ''https://n8n.srv1194059.hstgr.cloud/webhook/atlas-pwa''"

section \<open>The client controller\<close>

text \<open>
  The module state (\<^verbatim>\<open>currentFile\<close>, \<^verbatim>\<open>messageHistory\<close>, \<^verbatim>\<open>sessionId\<close>), the
  properties of the DOM elements the handlers write, and what the handlers do to the world:
  the requests passed to \<^verbatim>\<open>fetch\<close>, the \<^verbatim>\<open>alert\<close> texts, the errors printed by
  \<^verbatim>\<open>console.error\<close> and the arguments of the calls of \<^verbatim>\<open>setLoading\<close>, each in order.
  The children of the chat container are the rendered messages and the loading bubble.
  Styling (\<^verbatim>\<open>autoResizeTextarea\<close>, scrolling, focus) changes none of these.
\<close>

datatype chat_node = LoadingMessage | MessageDiv message

record app_state =
  currentFile :: "js_file option"
  messageHistory :: "message list"
  sessionId :: "js_string option"
  messageInput_value :: js_string
  fileInput_value :: js_string
  fileName_textContent :: js_string
  filePreview_hidden :: bool
  sendButton_disabled :: bool
  fileButton_disabled :: bool
  messageInput_disabled :: bool
  statusIndicator_hidden :: bool
  welcome_present :: bool
  chatContainer :: "chat_node list"
  requests :: "api_request list"
  alerts :: "js_string list"
  console_errors :: "js_error list"
  setLoading_calls :: "bool list"

definition clearFile :: "app_state \<Rightarrow> app_state" where
  "clearFile st =
     st\<lparr>currentFile := None, filePreview_hidden := True, fileName_textContent := [],
        fileInput_value := []\<rparr>"

definition setLoading :: "bool \<Rightarrow> app_state \<Rightarrow> app_state" where
  "setLoading isLoading st =
     (let st1 = st\<lparr>sendButton_disabled := isLoading, fileButton_disabled := isLoading,
                    messageInput_disabled := isLoading,
                    setLoading_calls := setLoading_calls st @ [isLoading]\<rparr>
      in if isLoading
         then st1\<lparr>statusIndicator_hidden := False,
                  chatContainer := chatContainer st1 @ [LoadingMessage]\<rparr>
         else st1\<lparr>statusIndicator_hidden := True,
                  chatContainer := remove1 LoadingMessage (chatContainer st1)\<rparr>)"

definition addMessageToChat :: "message \<Rightarrow> app_state \<Rightarrow> app_state" where
  "addMessageToChat m st =
     st\<lparr>welcome_present := False, chatContainer := chatContainer st @ [MessageDiv m]\<rparr>"

text \<open>
  \<^verbatim>\<open>handleFileSelect(e)\<close>; the argument is \<^verbatim>\<open>e.target.files[0]\<close>, \<open>None\<close> when the
  selection is empty, and \<^verbatim>\<open>e.target\<close> is the file input.
\<close>

definition allSupportedTypes :: "js_string list" where
  "allSupportedTypes = documents @ images @ code"

definition fileExt_of :: "js_string \<Rightarrow> js_string" where
  "fileExt_of name = lit ''.'' @ toLowerCase (last (split 46 name))"

definition handleFileSelect :: "js_file option \<Rightarrow> app_state \<Rightarrow> app_state" where
  "handleFileSelect selected st =
     (case selected of
        None \<Rightarrow> st
      | Some file \<Rightarrow>
          if file_size file > maxFileSize then
            st\<lparr>alerts := alerts st @
                   [lit ''File too large! Maximum size is '' @ formatFileSize maxFileSize],
               fileInput_value := []\<rparr>
          else
            let fileExt = fileExt_of (file_name file) in
            if fileExt \<notin> set allSupportedTypes then
              st\<lparr>alerts := alerts st @
                     [lit ''Unsupported file type: '' @ fileExt @ [10, 10] @
                      lit ''Supported types:'' @ [10] @ join (lit '', '') allSupportedTypes],
                 fileInput_value := []\<rparr>
            else
              st\<lparr>currentFile := Some file,
                 fileName_textContent :=
                   file_name file @ lit '' ('' @ formatFileSize (file_size file) @ lit '')'',
                 filePreview_hidden := False,
                 fileInput_value := []\<rparr>)"

text \<open>
  \<^verbatim>\<open>sendToAPI(message, file)\<close>, with \<^verbatim>\<open>fetch\<close> as a parameter. The result is what the
  promise settles to: \<open>Inl\<close> the thrown error, \<open>Inr\<close> the parsed body.
\<close>

definition sendToAPI ::
  "fetch_fn \<Rightarrow> js_string \<Rightarrow> js_file option \<Rightarrow> app_state \<Rightarrow> app_state \<times> (js_error + json)" where
  "sendToAPI fetch msg file st =
     (let request =
            (case file of
               Some f \<Rightarrow>
                 \<lparr>req_url = apiEndpoint, req_method = lit ''POST'', req_headers = [],
                  req_body = FormData
                    [(lit ''message'', FormText msg),
                     (lit ''session_id'',
                      FormText (case sessionId st of None \<Rightarrow> lit ''null'' | Some s \<Rightarrow> s)),
                     (lit ''file'', FormFile f)]\<rparr>
             | None \<Rightarrow>
                 \<lparr>req_url = apiEndpoint, req_method = lit ''POST'',
                  req_headers = [(lit ''Content-Type'', lit ''application/json'')],
                  req_body = JsonBody (JObj
                    [(lit ''message'', JStr msg),
                     (lit ''session_id'',
                      (case sessionId st of None \<Rightarrow> JNull | Some s \<Rightarrow> JStr s))])\<rparr>);
          st1 = st\<lparr>requests := requests st @ [request]\<rparr>
      in case fetch request of
           Inl e \<Rightarrow> (st1, Inl e)
         | Inr response \<Rightarrow>
             if \<not> response_ok response then
               (st1, Inl (JsError (Some (lit ''API returned '' @ digits 10 (status response) @
                                          lit '': '' @ statusText response))))
             else (st1, json_result response))"

text \<open>
  The reply text of the success branch:
  \<^verbatim>\<open>response.message || response.text || 'I received your message.'\<close>.
\<close>

definition reply_content :: "json \<Rightarrow> js_error + json" where
  "reply_content response =
     (case get_prop response (lit ''message'') of
        Inl e \<Rightarrow> Inl e
      | Inr m \<Rightarrow>
          (case get_prop response (lit ''text'') of
             Inl e \<Rightarrow> Inl e
           | Inr t \<Rightarrow> Inr (js_or m (js_or t (JStr (lit ''I received your message.''))))))"

text \<open>The text of the error bubble: a cross mark (U+274C), then the description.\<close>

definition error_content :: "js_error \<Rightarrow> js_string" where
  "error_content e =
     [10060] @ lit '' Error: '' @
     (case error_message e of
        None \<Rightarrow> lit ''Failed to send message. Please try again.''
      | Some m \<Rightarrow> if m \<noteq> [] then m else lit ''Failed to send message. Please try again.'')"

text \<open>
  \<^verbatim>\<open>handleSubmit(e)\<close>. \<open>fetch\<close> is the network, \<open>t1\<close> and \<open>t2\<close> are the two readings of
  the clock (\<^verbatim>\<open>new Date()\<close>). The catch block receives whatever the try block throws:
  the rejection of \<^verbatim>\<open>sendToAPI\<close> and the TypeError of reading a property of \<^verbatim>\<open>null\<close>.
  \<open>st7\<close> is the state after the try and catch blocks, the last line is the finally block.
\<close>

definition handleSubmit :: "fetch_fn \<Rightarrow> nat \<Rightarrow> nat \<Rightarrow> app_state \<Rightarrow> app_state" where
  "handleSubmit fetch t1 t2 st =
     (let msg = trim (messageInput_value st) in
      if msg = [] \<and> currentFile st = None then st
      else
        let st1 = setLoading True st;
            userMessage = \<lparr>role = User, content = JStr msg, file_info = currentFile st1,
                           timestamp = t1, isError = False\<rparr>;
            st2 = addMessageToChat userMessage st1;
            st3 = st2\<lparr>messageHistory := messageHistory st2 @ [userMessage]\<rparr>;
            st4 = st3\<lparr>messageInput_value := []\<rparr>;
            fileToSend = currentFile st4;
            st5 = clearFile st4;
            (st6, sent) = sendToAPI fetch msg fileToSend st5;
            st7 =
              (case (case sent of Inl e \<Rightarrow> Inl e | Inr response \<Rightarrow> reply_content response) of
                 Inr c \<Rightarrow>
                   let assistantMessage = \<lparr>role = Assistant, content = c, file_info = None,
                                             timestamp = t2, isError = False\<rparr>;
                       st' = addMessageToChat assistantMessage st6
                   in st'\<lparr>messageHistory := messageHistory st' @ [assistantMessage]\<rparr>
               | Inl error \<Rightarrow>
                   let st' = st6\<lparr>console_errors := console_errors st6 @ [error]\<rparr>;
                       errorMessage = \<lparr>role = Assistant, content = JStr (error_content error),
                                         file_info = None, timestamp = t2, isError = True\<rparr>
                   in addMessageToChat errorMessage st')
        in setLoading False st7)"

text \<open>
  The state when the script has loaded: the three module variables as the source
  initialises them, an empty form, no bubble, nothing done yet.
\<close>

definition initial_state :: app_state where
  "initial_state =
     \<lparr>currentFile = None, messageHistory = [], sessionId = None,
      messageInput_value = [], fileInput_value = [], fileName_textContent = [],
      filePreview_hidden = True, sendButton_disabled = False, fileButton_disabled = False,
      messageInput_disabled = False, statusIndicator_hidden = True, welcome_present = True,
      chatContainer = [], requests = [], alerts = [], console_errors = [],
      setLoading_calls = []\<rparr>"

section \<open>Session identity\<close>

text \<open>
  \<^verbatim>\<open>localStorage\<close> is a map from keys to strings; \<^verbatim>\<open>getItem\<close> of an absent key is
  \<^verbatim>\<open>null\<close> (\<open>None\<close>). \<^verbatim>\<open>Math.random\<close> is the sequence \<open>rnd\<close> of the numbers it
  returns, call after call; the platform promises \<open>0 \<le> rnd i < 1\<close>.
\<close>

type_synonym local_storage = "js_string \<rightharpoonup> js_string"

text \<open>\<^verbatim>\<open>x | 0\<close>: truncate towards zero, then wrap into the signed 32-bit range.\<close>

definition to_int32 :: "rat \<Rightarrow> int" where
  "to_int32 q =
     (let t = (if q < 0 then \<lceil>q\<rceil> else \<lfloor>q\<rfloor>);
          m = t mod 2 ^ 32
      in if 2 ^ 31 \<le> m then m - 2 ^ 32 else m)"

text \<open>\<^verbatim>\<open>v.toString(16)\<close> of an integer.\<close>

definition toString16 :: "int \<Rightarrow> js_string" where
  "toString16 v = (if v < 0 then lit ''-'' @ digits 16 (nat (- v)) else digits 16 (nat v))"

text \<open>
  The callback of \<^verbatim>\<open>replace\<close>, given the number \<^verbatim>\<open>Math.random()\<close> returns in it and
  the matched code unit (120 is \<^verbatim>\<open>x\<close>, 121 is \<^verbatim>\<open>y\<close>).
\<close>

definition uuid_replacer :: "rat \<Rightarrow> nat \<Rightarrow> js_string" where
  "uuid_replacer random c =
     (let r = to_int32 (random * 16);
          v = (if c = 120 then r else (r AND 3) OR 8)
      in toString16 v)"

text \<open>
  \<^verbatim>\<open>template.replace(/[xy]/g, callback)\<close>: the matches are replaced from left to right,
  the \<open>i\<close>-th of them with the \<open>i\<close>-th random number.
\<close>

fun replace_xy :: "(nat \<Rightarrow> rat) \<Rightarrow> nat \<Rightarrow> js_string \<Rightarrow> js_string" where
  "replace_xy rnd i [] = []"
| "replace_xy rnd i (c # cs) =
     (if c = 120 \<or> c = 121 then uuid_replacer (rnd i) c @ replace_xy rnd (Suc i) cs
      else c # replace_xy rnd i cs)"

definition session_key :: js_string where
  "session_key = lit ''atlas_session_id''"

datatype session_log = NewSessionCreated js_string | ExistingSession js_string

text \<open>
  \<^verbatim>\<open>getOrCreateSessionId()\<close>: the identifier returned, the storage afterwards and the
  line logged. \<^verbatim>\<open>!storedSessionId\<close> holds for \<^verbatim>\<open>null\<close> and for the empty string.
\<close>

definition getOrCreateSessionId ::
  "(nat \<Rightarrow> rat) \<Rightarrow> local_storage \<Rightarrow> js_string \<times> local_storage \<times> session_log" where
  "getOrCreateSessionId rnd ls =
     (let created =
            (let generated = replace_xy rnd 0 (lit ''xxxxxxxx-xxxx-4xxx-yxxx-xxxxxxxxxxxx'')
             in (generated, ls(session_key \<mapsto> generated), NewSessionCreated generated))
      in case ls session_key of
           None \<Rightarrow> created
         | Some storedSessionId \<Rightarrow>
             if storedSessionId = [] then created
             else (storedSessionId, ls, ExistingSession storedSessionId))"

text \<open>
  The UUID version 4 character pattern, position by position: groups of 8, 4, 4, 4 and 12
  lower-case hexadecimal digits separated by dashes, the first digit of the third group the
  version \<^verbatim>\<open>4\<close>, the first digit of the fourth group one of \<^verbatim>\<open>8 9 a b\<close>.
\<close>

datatype uuid_slot = Hex | Dash | Version4 | Variant

definition is_hex_unit :: "nat \<Rightarrow> bool" where
  "is_hex_unit c \<longleftrightarrow> (48 \<le> c \<and> c \<le> 57) \<or> (97 \<le> c \<and> c \<le> 102)"

fun fits :: "uuid_slot \<Rightarrow> nat \<Rightarrow> bool" where
  "fits Hex c = is_hex_unit c"
| "fits Dash c = (c = 45)"
| "fits Version4 c = (c = 52)"
| "fits Variant c = (c = 56 \<or> c = 57 \<or> c = 97 \<or> c = 98)"

definition uuid_v4_shape :: "uuid_slot list" where
  "uuid_v4_shape =
     replicate 8 Hex @ [Dash] @ replicate 4 Hex @ [Dash, Version4] @ replicate 3 Hex @
     [Dash, Variant] @ replicate 3 Hex @ [Dash] @ replicate 12 Hex"

definition is_uuid_v4 :: "js_string \<Rightarrow> bool" where
  "is_uuid_v4 s = list_all2 fits uuid_v4_shape s"

section \<open>The offline cache worker\<close>

text \<open>
  A request as the worker reads it, a response, and the cache storage: the named caches in
  the order of their creation (the order of \<^verbatim>\<open>caches.keys()\<close>), each a list of entries
  keyed by the request URL. The names of a cache storage are distinct.
\<close>

record sw_request =
  request_method :: js_string
  url :: js_string
  destination :: js_string

record sw_response =
  resp_status :: nat
  resp_body :: js_string

type_synonym cache = "(js_string \<times> sw_response) list"

type_synonym cache_storage = "(js_string \<times> cache) list"

datatype log_line =
    Installing
  | CachingAppShell
  | InstalledSuccessfully
  | InstallationFailed js_error
  | Activating
  | DeletingOldCache js_string
  | Activated
  | ServingFromCache js_string
  | FetchingFromNetwork js_string
  | FetchFailed js_error

text \<open>
  The worker's world: the cache storage, the console, the calls of \<^verbatim>\<open>skipWaiting\<close> and
  \<^verbatim>\<open>clients.claim\<close>, and the requests that went to the network, in order.
\<close>

record sw_state =
  caches :: cache_storage
  console :: "log_line list"
  skipWaiting_calls :: nat
  clients_claim_calls :: nat
  network :: "sw_request list"

text \<open>
  The platform around the worker: the origin that relative URLs resolve against, the
  network (\<^verbatim>\<open>fetch\<close> settles to an error or a response), and whether \<^verbatim>\<open>caches.open\<close>
  rejects.
\<close>

record sw_env =
  origin :: js_string
  net :: "sw_request \<Rightarrow> js_error + sw_response"
  open_error :: "js_error option"

definition CACHE_NAME :: js_string where
  "CACHE_NAME = lit ''atlas-v3.0.0''"

definition ASSETS_TO_CACHE :: "js_string list" where
  "ASSETS_TO_CACHE =
     [lit ''/'', lit ''/index.html'', lit ''/style.css'', lit ''/app.js'', lit ''/manifest.json'',
      lit ''/icons/icon-192.png'', lit ''/icons/icon-512.png'']"

fun put :: "'k \<Rightarrow> 'v \<Rightarrow> ('k \<times> 'v) list \<Rightarrow> ('k \<times> 'v) list" where
  "put k v [] = [(k, v)]"
| "put k v ((k', v') # kvs) = (if k' = k then (k, v) # kvs else (k', v') # put k v kvs)"

definition caches_open :: "js_string \<Rightarrow> cache_storage \<Rightarrow> cache_storage" where
  "caches_open name cs = (if name \<in> fst ` set cs then cs else cs @ [(name, [])])"

definition caches_keys :: "cache_storage \<Rightarrow> js_string list" where
  "caches_keys cs = map fst cs"

definition caches_delete :: "js_string \<Rightarrow> cache_storage \<Rightarrow> cache_storage" where
  "caches_delete name cs = filter (\<lambda>(n, c). n \<noteq> name) cs"

text \<open>\<^verbatim>\<open>caches.match(request)\<close>: the first entry for the URL, over all the caches.\<close>

fun caches_match :: "js_string \<Rightarrow> cache_storage \<Rightarrow> sw_response option" where
  "caches_match u [] = None"
| "caches_match u ((n, c) # cs) =
     (case map_of c u of Some r \<Rightarrow> Some r | None \<Rightarrow> caches_match u cs)"

text \<open>\<^verbatim>\<open>cache.put(request, response)\<close> on the cache of the given name.\<close>

definition cache_put :: "js_string \<Rightarrow> js_string \<Rightarrow> sw_response \<Rightarrow> cache_storage \<Rightarrow> cache_storage" where
  "cache_put name u r cs = map (\<lambda>(n, c). if n = name then (n, put u r c) else (n, c)) cs"

definition resp_ok :: "sw_response \<Rightarrow> bool" where
  "resp_ok r \<longleftrightarrow> 200 \<le> resp_status r \<and> resp_status r \<le> 299"

definition console_log :: "log_line \<Rightarrow> sw_state \<Rightarrow> sw_state" where
  "console_log l st = st\<lparr>console := console st @ [l]\<rparr>"

definition get_request :: "sw_env \<Rightarrow> js_string \<Rightarrow> sw_request" where
  "get_request env path = \<lparr>request_method = lit ''GET'', url = origin env @ path, destination = []\<rparr>"

text \<open>
  \<^verbatim>\<open>cache.addAll(urls)\<close>: every URL is fetched; when a fetch rejects or a response is not
  ok the promise rejects and nothing is stored, otherwise every response is stored.
\<close>

fun first_failure :: "(js_error + sw_response) list \<Rightarrow> js_error option" where
  "first_failure [] = None"
| "first_failure (Inl e # rs) = Some e"
| "first_failure (Inr r # rs) =
     (if resp_ok r then first_failure rs else Some (JsError (Some (lit ''Request failed''))))"

definition cache_addAll ::
  "sw_env \<Rightarrow> js_string \<Rightarrow> js_string list \<Rightarrow> sw_state \<Rightarrow> sw_state \<times> (js_error + unit)" where
  "cache_addAll env name paths st =
     (let reqs = map (get_request env) paths;
          results = map (net env) reqs;
          st1 = st\<lparr>network := network st @ reqs\<rparr>
      in case first_failure results of
           Some e \<Rightarrow> (st1, Inl e)
         | None \<Rightarrow>
             (st1\<lparr>caches :=
                    fold (\<lambda>(q, res) cs. case res of Inr r \<Rightarrow> cache_put name (url q) r cs | Inl e \<Rightarrow> cs)
                      (zip reqs results) (caches st1)\<rparr>,
              Inr ()))"

text \<open>
  The install listener. The result is what the promise passed to \<^verbatim>\<open>event.waitUntil\<close>
  settles to: \<open>Inl\<close> rejected, \<open>Inr\<close> fulfilled. The generation name is a parameter, the
  source's value is \<open>CACHE_NAME\<close>. Each line of the \<open>let\<close> is one link of the promise
  chain: a \<^verbatim>\<open>then\<close> runs on a fulfilled promise and passes a rejection on, the
  \<^verbatim>\<open>catch\<close> runs on a rejection and fulfils with what its handler returns.
\<close>

definition install_listener ::
  "sw_env \<Rightarrow> js_string \<Rightarrow> sw_state \<Rightarrow> sw_state \<times> (js_error + unit)" where
  "install_listener env cache_name st =
     (let st0 = console_log Installing st;
          (st1, opened) =
            (case open_error env of
               Some e \<Rightarrow> (st0, Inl e)
             | None \<Rightarrow> (st0\<lparr>caches := caches_open cache_name (caches st0)\<rparr>, Inr ()));
          (st2, added) =
            (case opened of
               Inl e \<Rightarrow> (st1, Inl e)
             | Inr u \<Rightarrow> cache_addAll env cache_name ASSETS_TO_CACHE (console_log CachingAppShell st1));
          (st3, skipped) =
            (case added of
               Inl e \<Rightarrow> (st2, Inl e)
             | Inr u \<Rightarrow>
                 ((console_log InstalledSuccessfully st2)\<lparr>skipWaiting_calls := Suc (skipWaiting_calls st2)\<rparr>,
                  Inr ()))
      in case skipped of
           Inl e \<Rightarrow> (console_log (InstallationFailed e) st3, Inr ())
         | Inr u \<Rightarrow> (st3, Inr u))"

text \<open>
  The platform's reading of the promise passed to \<^verbatim>\<open>waitUntil\<close> of the install event:
  the installation is aborted (the worker becomes redundant) exactly when it rejects.
\<close>

definition installation_aborted :: "js_error + unit \<Rightarrow> bool" where
  "installation_aborted p = (case p of Inl e \<Rightarrow> True | Inr u \<Rightarrow> False)"

text \<open>The activate listener: the state afterwards (the promise chain has no rejection).\<close>

definition activate_listener :: "js_string \<Rightarrow> sw_state \<Rightarrow> sw_state" where
  "activate_listener cache_name st =
     (let st0 = console_log Activating st;
          cacheNames = caches_keys (caches st0);
          old = filter (\<lambda>cacheName. cacheName \<noteq> cache_name) cacheNames;
          st1 = fold (\<lambda>cacheName s.
                        (console_log (DeletingOldCache cacheName) s)
                          \<lparr>caches := caches_delete cacheName (caches s)\<rparr>) old st0
      in (console_log Activated st1)\<lparr>clients_claim_calls := Suc (clients_claim_calls st1)\<rparr>)"

text \<open>
  The fetch listener: either it returns without \<^verbatim>\<open>respondWith\<close>, or it answers with what
  its promise resolves to (\<open>None\<close> is \<^verbatim>\<open>undefined\<close>, which the page sees as a failed
  fetch).
\<close>

datatype fetch_handling = NotIntercepted | RespondWith "sw_response option"

definition fetch_listener ::
  "sw_env \<Rightarrow> js_string \<Rightarrow> sw_request \<Rightarrow> sw_state \<Rightarrow> sw_state \<times> fetch_handling" where
  "fetch_listener env cache_name request st =
     (if request_method request \<noteq> lit ''GET'' then (st, NotIntercepted)
      else if includes_str (url request) (lit ''/webhook/'') then (st, NotIntercepted)
      else
        (case caches_match (url request) (caches st) of
           Some cachedResponse \<Rightarrow>
             (console_log (ServingFromCache (url request)) st, RespondWith (Some cachedResponse))
         | None \<Rightarrow>
             let st1 = (console_log (FetchingFromNetwork (url request)) st)
                         \<lparr>network := network st @ [request]\<rparr>
             in (case net env request of
                   Inr networkResponse \<Rightarrow>
                     (if resp_status networkResponse = 200
                      then st1\<lparr>caches := cache_put cache_name (url request) networkResponse
                                            (caches_open cache_name (caches st1))\<rparr>
                      else st1,
                      RespondWith (Some networkResponse))
                 | Inl error \<Rightarrow>
                     (console_log (FetchFailed error) st1,
                      if destination request = lit ''document''
                      then RespondWith (caches_match (origin env @ lit ''/index.html'') (caches st1))
                      else RespondWith None))))"

text \<open>
  What the page gets for a request in the worker's scope. The platform dispatches the
  fetch event to the listener; when the listener has not called \<^verbatim>\<open>respondWith\<close> the
  browser performs the request itself, on the network.
\<close>

definition handle_fetch ::
  "sw_env \<Rightarrow> js_string \<Rightarrow> sw_request \<Rightarrow> sw_state \<Rightarrow> sw_state \<times> sw_response option" where
  "handle_fetch env cache_name request st =
     (case fetch_listener env cache_name request st of
        (st1, RespondWith r) \<Rightarrow> (st1, r)
      | (st1, NotIntercepted) \<Rightarrow>
          (st1\<lparr>network := network st1 @ [request]\<rparr>,
           (case net env request of Inl e \<Rightarrow> None | Inr r \<Rightarrow> Some r)))"

text \<open>
  The relation between a code unit of the template and the code unit that the replacement
  puts in its place.
\<close>

definition replaced :: "nat \<Rightarrow> nat \<Rightarrow> bool" where
  "replaced c d \<longleftrightarrow>
     (if c = 120 then is_hex_unit d else if c = 121 then fits Variant d else d = c)"

section \<open>Example inputs\<close>

text \<open>Files: one byte over the ceiling, a small text file, and two with no dot in the name.\<close>

definition big_pdf :: js_file where
  "big_pdf = \<lparr>file_name = lit ''scan.pdf'', file_size = 10485761,
              file_type = lit ''application/pdf''\<rparr>"

definition notes_txt :: js_file where
  "notes_txt = \<lparr>file_name = lit ''notes.txt'', file_size = 12, file_type = lit ''text/plain''\<rparr>"

definition dotless_json :: js_file where
  "dotless_json = \<lparr>file_name = lit ''JSON'', file_size = 2, file_type = []\<rparr>"

definition makefile :: js_file where
  "makefile = \<lparr>file_name = lit ''Makefile'', file_size = 40, file_type = []\<rparr>"

text \<open>The user has typed "hi"; a backend that answers 500, and one that answers a body.\<close>

definition typed_hi :: app_state where
  "typed_hi = initial_state\<lparr>messageInput_value := lit ''hi''\<rparr>"

definition fetch_500 :: fetch_fn where
  "fetch_500 =
     (\<lambda>request. Inr \<lparr>status = 500, statusText = lit ''Internal Server Error'',
                      json_result = Inl (JsError (Some (lit ''Unexpected end of JSON input'')))\<rparr>)"

definition fetch_ok :: "json \<Rightarrow> fetch_fn" where
  "fetch_ok body = (\<lambda>request. Inr \<lparr>status = 200, statusText = lit ''OK'', json_result = Inr body\<rparr>)"

definition empty_message_body :: json where
  "empty_message_body = JObj [(lit ''message'', JStr []), (lit ''text'', JStr (lit ''hello''))]"

text \<open>
  A worker with no cache yet; a network on which one icon of the manifest is missing; a
  platform on which \<^verbatim>\<open>caches.open\<close> rejects; a network that answers every request afresh; a cache storage that holds the stylesheet and
  an entry under the webhook URL.
\<close>

definition sw_initial :: sw_state where
  "sw_initial = \<lparr>caches = [], console = [], skipWaiting_calls = 0, clients_claim_calls = 0,
                  network = []\<rparr>"

definition example_origin :: js_string where
  "example_origin = lit ''https://atlas.example''"

definition missing_icon_env :: sw_env where
  "missing_icon_env =
     \<lparr>origin = example_origin,
      net = (\<lambda>request. if url request = example_origin @ lit ''/icons/icon-512.png''
                         then Inr \<lparr>resp_status = 404, resp_body = []\<rparr>
                         else Inr \<lparr>resp_status = 200, resp_body = url request\<rparr>),
      open_error = None\<rparr>"

definition rejected_open_env :: sw_env where
  "rejected_open_env =
     \<lparr>origin = example_origin,
      net = (\<lambda>request. Inr \<lparr>resp_status = 200, resp_body = url request\<rparr>),
      open_error = Some (JsError (Some (lit ''QuotaExceededError'')))\<rparr>"

definition fresh_env :: sw_env where
  "fresh_env =
     \<lparr>origin = example_origin,
      net = (\<lambda>request. Inr \<lparr>resp_status = 200, resp_body = lit ''fresh''\<rparr>),
      open_error = None\<rparr>"

definition populated :: sw_state where
  "populated =
     sw_initial\<lparr>caches :=
       [(CACHE_NAME,
         [(example_origin @ lit ''/style.css'', \<lparr>resp_status = 200, resp_body = lit ''cached''\<rparr>),
          (example_origin @ lit ''/webhook/atlas-pwa'',
           \<lparr>resp_status = 200, resp_body = lit ''stale''\<rparr>)])]\<rparr>"

definition get_style :: sw_request where
  "get_style = \<lparr>request_method = lit ''GET'', url = example_origin @ lit ''/style.css'',
                destination = lit ''style''\<rparr>"

definition get_webhook :: sw_request where
  "get_webhook = \<lparr>request_method = lit ''GET'', url = example_origin @ lit ''/webhook/atlas-pwa'',
                  destination = []\<rparr>"

definition post_style :: sw_request where
  "post_style = \<lparr>request_method = lit ''POST'', url = example_origin @ lit ''/style.css'',
                 destination = []\<rparr>"

section \<open>Properties\<close>

subsection \<open>Helper facts\<close>

lemma split_not_Nil: "split sep s \<noteq> []"
  by (induction s) (auto split: list.splits)

lemma split_dotless: "sep \<notin> set s \<Longrightarrow> split sep s = [s]"
  by (induction s) auto

lemma split_length: "sep \<in> set s \<Longrightarrow> 2 \<le> length (split sep s)"
proof (induction s)
  case Nil
  then show ?case by simp
next
  case (Cons c cs)
  show ?case
  proof (cases "c = sep")
    case True
    then show ?thesis using split_not_Nil [of sep cs] by (cases "split sep cs") auto
  next
    case False
    with Cons show ?thesis by (auto split: list.splits)
  qed
qed

text \<open>The last piece of \<open>split\<close> is what follows the last separator.\<close>

lemma last_split: "last (split sep s) = rev (takeWhile (\<lambda>c. c \<noteq> sep) (rev s))"
proof (induction s)
  case Nil
  then show ?case by simp
next
  case (Cons c cs)
  show ?case
  proof (cases "c = sep")
    case True
    then show ?thesis using Cons split_not_Nil [of sep cs]
      by (auto simp: takeWhile_append)
  next
    case False
    show ?thesis
    proof (cases "sep \<in> set cs")
      case True
      from split_length [OF True] obtain w v ws where "split sep cs = w # v # ws"
        by (cases "split sep cs"; cases "tl (split sep cs)") auto
      with Cons False True show ?thesis
        by (auto simp: takeWhile_append)
    next
      case no: False
      with False show ?thesis
        by (simp add: split_dotless takeWhile_append)
    qed
  qed
qed

lemmas file_cfg = maxFileSize_def allSupportedTypes_def documents_def images_def code_def
  fileExt_of_def toLowerCase_def lower_unit_def

lemmas submit_defs = handleSubmit_def Let_def sendToAPI_def setLoading_def addMessageToChat_def
  clearFile_def

lemma trim_hi: "trim (lit ''hi'') = lit ''hi''"
  by (simp add: trim_def is_js_whitespace_def)

lemma digits_500: "digits 10 500 = lit ''500''"
  by (simp add: digits.simps digit_unit_def)

subsection \<open>Submitting nothing\<close>

text \<open>
  Claim C9. A submit whose trimmed text is empty, with no pending attachment, is a no-op:
  the state comes back as it was, so no request is sent, no message is appended to the
  history or shown, and \<^verbatim>\<open>setLoading\<close> is never called.
\<close>

theorem handleSubmit_empty_noop:
  assumes "trim (messageInput_value st) = []" and "currentFile st = None"
  shows "handleSubmit fetch t1 t2 st = st \<and>
         requests (handleSubmit fetch t1 t2 st) = requests st \<and>
         messageHistory (handleSubmit fetch t1 t2 st) = messageHistory st \<and>
         chatContainer (handleSubmit fetch t1 t2 st) = chatContainer st \<and>
         setLoading_calls (handleSubmit fetch t1 t2 st) = setLoading_calls st"
  using assms by (simp add: handleSubmit_def)

theorem handleSubmit_empty_noop_witness:
  "trim (messageInput_value (initial_state\<lparr>messageInput_value := [32, 9, 10, 160]\<rparr>)) = [] \<and>
   currentFile (initial_state\<lparr>messageInput_value := [32, 9, 10, 160]\<rparr>) = None \<and>
   handleSubmit (\<lambda>r. Inl (JsError None)) 1 2 (initial_state\<lparr>messageInput_value := [32, 9, 10, 160]\<rparr>) =
     initial_state\<lparr>messageInput_value := [32, 9, 10, 160]\<rparr> \<and>
   requests (handleSubmit (\<lambda>r. Inl (JsError None)) 1 2
     (initial_state\<lparr>messageInput_value := [32, 9, 10, 160]\<rparr>)) = [] \<and>
   setLoading_calls (handleSubmit (\<lambda>r. Inl (JsError None)) 1 2
     (initial_state\<lparr>messageInput_value := [32, 9, 10, 160]\<rparr>)) = []"
proof -
  let ?st = "initial_state\<lparr>messageInput_value := [32, 9, 10, 160]\<rparr>"
  have t: "trim (messageInput_value ?st) = []"
    by (simp add: trim_def is_js_whitespace_def)
  have c: "currentFile ?st = None"
    by (simp add: initial_state_def)
  from handleSubmit_empty_noop [OF t c, of "\<lambda>r. Inl (JsError None)" 1 2] t c
  show ?thesis by (simp add: initial_state_def)
qed

text \<open>The guard is the only way out: any other submit sends exactly one request.\<close>

lemma handleSubmit_sends:
  assumes "trim (messageInput_value st) \<noteq> [] \<or> currentFile st \<noteq> None"
  shows "length (requests (handleSubmit fetch t1 t2 st)) = Suc (length (requests st))"
  using assms
  by (auto simp: handleSubmit_def Let_def sendToAPI_def setLoading_def addMessageToChat_def
      clearFile_def split: sum.splits option.splits prod.splits)

subsection \<open>A failed request\<close>

text \<open>
  Whatever the request does, \<^verbatim>\<open>handleSubmit\<close> appends no message flagged as an error
  to \<^verbatim>\<open>messageHistory\<close>: the catch block renders its message and stops there.
\<close>

lemma handleSubmit_history_no_error:
  "filter isError (messageHistory (handleSubmit fetch t1 t2 st)) =
   filter isError (messageHistory st)"
  by (auto simp: submit_defs split: sum.splits option.splits prod.splits)

text \<open>
  A submit whose request is rejected or answered with a status outside 200 to 299: the
  history gains the user message only, the chat shows the user message and one error
  bubble.
\<close>

lemma handleSubmit_failure:
  assumes "trim (messageInput_value st) \<noteq> [] \<or> currentFile st \<noteq> None"
    and "fetch = (\<lambda>request. r)"
    and "(case r of Inl e \<Rightarrow> True | Inr resp \<Rightarrow> \<not> response_ok resp)"
  shows "\<exists>e. messageHistory (handleSubmit fetch t1 t2 st) =
           messageHistory st @ [\<lparr>role = User, content = JStr (trim (messageInput_value st)),
                                  file_info = currentFile st, timestamp = t1, isError = False\<rparr>] \<and>
         chatContainer (handleSubmit fetch t1 t2 st) =
           remove1 LoadingMessage (chatContainer st @ [LoadingMessage,
             MessageDiv \<lparr>role = User, content = JStr (trim (messageInput_value st)),
                         file_info = currentFile st, timestamp = t1, isError = False\<rparr>,
             MessageDiv \<lparr>role = Assistant, content = JStr (error_content e),
                         file_info = None, timestamp = t2, isError = True\<rparr>])"
  using assms
  by (auto simp: submit_defs split: sum.splits option.splits prod.splits)

text \<open>
  Claim C1, on the code. The user submits "hi" and the backend answers HTTP 500. The chat
  shows the user message and exactly one assistant message flagged \<^verbatim>\<open>isError\<close> whose
  text contains "500"; but \<^verbatim>\<open>messageHistory\<close> holds the user message alone: the error
  message is created and rendered, and never appended to the history, unlike the user
  message and the reply of the success branch.
\<close>

theorem handleSubmit_http_500:
  "chatContainer (handleSubmit fetch_500 1 2 typed_hi) =
     [MessageDiv \<lparr>role = User, content = JStr (lit ''hi''), file_info = None, timestamp = 1,
                  isError = False\<rparr>,
      MessageDiv \<lparr>role = Assistant,
                  content = JStr ([10060] @ lit '' Error: API returned 500: Internal Server Error''),
                  file_info = None, timestamp = 2, isError = True\<rparr>] \<and>
   includes_str ([10060] @ lit '' Error: API returned 500: Internal Server Error'') (lit ''500'') \<and>
   messageHistory (handleSubmit fetch_500 1 2 typed_hi) =
     [\<lparr>role = User, content = JStr (lit ''hi''), file_info = None, timestamp = 1,
       isError = False\<rparr>] \<and>
   filter isError (messageHistory (handleSubmit fetch_500 1 2 typed_hi)) = []"
  using trim_hi digits_500
  by (simp add: submit_defs typed_hi_def fetch_500_def initial_state_def response_ok_def
      error_content_def)

subsection \<open>The reply text\<close>

text \<open>
  Claim C6, as the code has it. For a parsed body other than \<^verbatim>\<open>null\<close>, answered with
  a 2xx status to a submit that is not empty, the history gains the user message and one
  assistant message, not flagged as an error, whose content is the value of the
  \<^verbatim>\<open>message\<close> field when that value is truthy, else the value of the \<^verbatim>\<open>text\<close>
  field when that value is truthy, else the fixed string "I received your message.".
  A field that is present with a falsy value (the empty string, 0, false, null) counts as
  absent.
\<close>

theorem handleSubmit_reply:
  assumes "trim (messageInput_value st) \<noteq> [] \<or> currentFile st \<noteq> None"
    and "response_ok resp" and "json_result resp = Inr body" and "body \<noteq> JNull"
    and "H = messageHistory (handleSubmit (\<lambda>request. Inr resp) t1 t2 st)"
  shows "\<exists>m t. get_prop body (lit ''message'') = Inr m \<and> get_prop body (lit ''text'') = Inr t \<and>
           length H = length (messageHistory st) + 2 \<and>
           role (last H) = Assistant \<and> \<not> isError (last H) \<and>
           ((\<exists>v. m = Some v \<and> truthy v) \<longrightarrow> Some (content (last H)) = m) \<and>
           (\<not> (\<exists>v. m = Some v \<and> truthy v) \<and> (\<exists>v. t = Some v \<and> truthy v) \<longrightarrow>
              Some (content (last H)) = t) \<and>
           (\<not> (\<exists>v. m = Some v \<and> truthy v) \<and> \<not> (\<exists>v. t = Some v \<and> truthy v) \<longrightarrow>
              content (last H) = JStr (lit ''I received your message.''))"
proof -
  obtain m where m: "get_prop body (lit ''message'') = Inr m"
    using assms(4) by (cases body) auto
  obtain t where t: "get_prop body (lit ''text'') = Inr t"
    using assms(4) by (cases body) auto
  have H: "H = messageHistory st @
             [\<lparr>role = User, content = JStr (trim (messageInput_value st)),
               file_info = currentFile st, timestamp = t1, isError = False\<rparr>,
              \<lparr>role = Assistant,
               content = js_or m (js_or t (JStr (lit ''I received your message.''))),
               file_info = None, timestamp = t2, isError = False\<rparr>]"
    using assms(1,2,3,5) m t
    by (auto simp: submit_defs reply_content_def)
  show ?thesis
    using m t H by (auto simp: js_or_def split: option.splits)
qed

theorem handleSubmit_reply_witness:
  "trim (messageInput_value typed_hi) \<noteq> [] \<and>
   content (last (messageHistory (handleSubmit
      (\<lambda>request. Inr \<lparr>status = 200, statusText = lit ''OK'',
                       json_result = Inr (JObj [(lit ''text'', JStr (lit ''hello''))])\<rparr>)
      1 2 typed_hi))) = JStr (lit ''hello'') \<and>
   content (last (messageHistory (handleSubmit
      (\<lambda>request. Inr \<lparr>status = 200, statusText = lit ''OK'',
                       json_result = Inr (JArr [])\<rparr>)
      1 2 typed_hi))) = JStr (lit ''I received your message.'')"
proof -
  let ?b1 = "JObj [(lit ''text'', JStr (lit ''hello''))]"
  let ?r1 = "\<lparr>status = 200, statusText = lit ''OK'', json_result = Inr ?b1\<rparr>"
  let ?r2 = "\<lparr>status = 200, statusText = lit ''OK'', json_result = Inr (JArr [])\<rparr>"
  have t: "trim (messageInput_value typed_hi) \<noteq> []"
    using trim_hi by (simp add: typed_hi_def initial_state_def)
  then have ne: "trim (messageInput_value typed_hi) \<noteq> [] \<or> currentFile typed_hi \<noteq> None"
    by simp
  have w1: "content (last (messageHistory (handleSubmit (\<lambda>request. Inr ?r1) 1 2 typed_hi))) =
              JStr (lit ''hello'')"
    using handleSubmit_reply [where st = typed_hi and resp = ?r1 and body = ?b1 and ?t1.0 = 1
        and ?t2.0 = 2 and H = "messageHistory (handleSubmit (\<lambda>request. Inr ?r1) 1 2 typed_hi)",
        OF ne]
    by (auto simp: response_ok_def)
  have w2: "content (last (messageHistory (handleSubmit (\<lambda>request. Inr ?r2) 1 2 typed_hi))) =
              JStr (lit ''I received your message.'')"
    using handleSubmit_reply [where st = typed_hi and resp = ?r2 and body = "JArr []" and ?t1.0 = 1
        and ?t2.0 = 2 and H = "messageHistory (handleSubmit (\<lambda>request. Inr ?r2) 1 2 typed_hi)",
        OF ne]
    by (auto simp: response_ok_def)
  from t w1 w2 show ?thesis by simp
qed

text \<open>
  The claim as stated fails where the first present field is falsy: with the body
  \<^verbatim>\<open>{"message": "", "text": "hello"}\<close> the \<^verbatim>\<open>message\<close> field is present, and the
  reply is the \<^verbatim>\<open>text\<close> field.
\<close>

theorem first_present_field_not_taken:
  "get_prop empty_message_body (lit ''message'') = Inr (Some (JStr [])) \<and>
   content (last (messageHistory (handleSubmit (fetch_ok empty_message_body) 1 2 typed_hi))) =
     JStr (lit ''hello'')"
  using trim_hi
  by (simp add: submit_defs typed_hi_def fetch_ok_def initial_state_def response_ok_def
      reply_content_def empty_message_body_def js_or_def)

subsection \<open>Selecting a file\<close>

text \<open>
  A file in the slot after a selection was there before, or it is the selected file and it
  passed both checks.
\<close>

lemma handleFileSelect_slot:
  assumes "currentFile (handleFileSelect selected st) = Some g"
  shows "currentFile st = Some g \<or>
         (selected = Some g \<and> file_size g \<le> maxFileSize \<and>
          fileExt_of (file_name g) \<in> set allSupportedTypes)"
  using assms
  by (auto simp: handleFileSelect_def Let_def split: option.splits if_splits)

text \<open>
  Claim C3, as the code has it. A selection that fails validation (larger than 10,485,760
  bytes, whatever the extension, or an extension outside the allow-list) is rejected with
  one alert, the file input is reset, and the pending attachment slot is left as it was:
  the rejected file does not enter it, an empty slot stays empty, and the message history
  is untouched.
\<close>

theorem handleFileSelect_rejected:
  assumes "file_size f > maxFileSize \<or> fileExt_of (file_name f) \<notin> set allSupportedTypes"
  shows "currentFile (handleFileSelect (Some f) st) = currentFile st \<and>
         fileInput_value (handleFileSelect (Some f) st) = [] \<and>
         length (alerts (handleFileSelect (Some f) st)) = Suc (length (alerts st)) \<and>
         messageHistory (handleFileSelect (Some f) st) = messageHistory st \<and>
         (currentFile st = None \<longrightarrow> currentFile (handleFileSelect (Some f) st) = None) \<and>
         (currentFile st \<noteq> Some f \<longrightarrow> currentFile (handleFileSelect (Some f) st) \<noteq> Some f)"
  using assms by (auto simp: handleFileSelect_def Let_def)

theorem handleFileSelect_rejected_witness:
  "file_size big_pdf > maxFileSize \<and>
   currentFile (handleFileSelect (Some big_pdf) initial_state) = None \<and>
   fileInput_value (handleFileSelect (Some big_pdf) initial_state) = []"
  using handleFileSelect_rejected [of big_pdf initial_state]
  by (simp add: big_pdf_def maxFileSize_def initial_state_def)

text \<open>
  The claim as stated fails when an attachment is already pending: the user picks
  notes.txt, which is accepted, then an oversized file, which is rejected; notes.txt is
  still the pending attachment.
\<close>

theorem rejected_selection_keeps_pending_attachment:
  "file_size big_pdf > maxFileSize \<and>
   currentFile (handleFileSelect (Some big_pdf) (handleFileSelect (Some notes_txt) initial_state))
     = Some notes_txt"
  by (simp add: handleFileSelect_def big_pdf_def notes_txt_def Let_def file_cfg initial_state_def)

text \<open>
  Claim C10. The extension that is checked is a dot followed by the lower-cased part of the
  name after its last dot. A name with no dot is its own last part, so its extension is a
  dot followed by the whole lower-cased name: within the size ceiling, such a file is
  accepted (stored, no alert) exactly when its lower-cased name is the body of an
  allow-listed extension, and rejected (one alert, slot unchanged) otherwise.
\<close>

theorem fileExt_last_segment:
  "fileExt_of name = lit ''.'' @ toLowerCase (rev (takeWhile (\<lambda>c. c \<noteq> 46) (rev name))) \<and>
   (46 \<notin> set name \<longrightarrow> fileExt_of name = lit ''.'' @ toLowerCase name) \<and>
   (46 \<notin> set (file_name f) \<and> file_size f \<le> maxFileSize \<longrightarrow>
      (if toLowerCase (file_name f) \<in>
            lit ` {''pdf'', ''docx'', ''txt'', ''md'', ''jpg'', ''jpeg'', ''png'', ''js'', ''py'',
                   ''java'', ''cpp'', ''c'', ''h'', ''cs'', ''html'', ''css'', ''json'', ''xml''}
       then currentFile (handleFileSelect (Some f) st) = Some f \<and>
            alerts (handleFileSelect (Some f) st) = alerts st
       else currentFile (handleFileSelect (Some f) st) = currentFile st \<and>
            length (alerts (handleFileSelect (Some f) st)) = Suc (length (alerts st))))"
proof -
  have a: "fileExt_of name = lit ''.'' @ toLowerCase (rev (takeWhile (\<lambda>c. c \<noteq> 46) (rev name)))"
    by (simp add: fileExt_of_def last_split)
  have b: "fileExt_of n = 46 # toLowerCase n" if "46 \<notin> set n" for n
    using that by (simp add: fileExt_of_def split_dotless)
  have c: "46 # x \<in> set allSupportedTypes \<longleftrightarrow>
           x \<in> lit ` {''pdf'', ''docx'', ''txt'', ''md'', ''jpg'', ''jpeg'', ''png'', ''js'', ''py'',
                      ''java'', ''cpp'', ''c'', ''h'', ''cs'', ''html'', ''css'', ''json'', ''xml''}"
    for x
    by (simp add: allSupportedTypes_def documents_def images_def code_def)
  show ?thesis
    using a b [of name] b [of "file_name f"] c [of "toLowerCase (file_name f)"]
    by (auto simp: handleFileSelect_def Let_def)
qed

theorem fileExt_last_segment_witness:
  "46 \<notin> set (file_name dotless_json) \<and> file_size dotless_json \<le> maxFileSize \<and>
   fileExt_of (file_name dotless_json) = lit ''.json'' \<and>
   currentFile (handleFileSelect (Some dotless_json) initial_state) = Some dotless_json \<and>
   46 \<notin> set (file_name makefile) \<and> file_size makefile \<le> maxFileSize \<and>
   fileExt_of (file_name makefile) = lit ''.makefile'' \<and>
   currentFile (handleFileSelect (Some makefile) initial_state) = None \<and>
   length (alerts (handleFileSelect (Some makefile) initial_state)) = 1"
  using fileExt_last_segment [of "file_name dotless_json" dotless_json initial_state]
    fileExt_last_segment [of "file_name makefile" makefile initial_state]
  by (simp add: dotless_json_def makefile_def maxFileSize_def initial_state_def toLowerCase_def
      lower_unit_def)

subsection \<open>Formatting a byte count\<close>

text \<open>\<open>floor_log k n\<close> is the exponent of the largest power of \<open>k\<close> that is at most \<open>n\<close>.\<close>

lemma floor_log_bounds:
  "2 \<le> k \<Longrightarrow> 0 < n \<Longrightarrow> k ^ floor_log k n \<le> n \<and> n < k ^ Suc (floor_log k n)"
proof (induction k n rule: floor_log.induct)
  case (1 k n)
  show ?case
  proof (cases "n < k")
    case True
    with 1 show ?thesis by (simp add: floor_log.simps)
  next
    case False
    with 1 have pos: "0 < n div k" by (simp add: div_greater_zero_iff)
    from 1 False pos have IH: "k ^ floor_log k (n div k) \<le> n div k"
      "n div k < k ^ Suc (floor_log k (n div k))" by auto
    from 1 have k: "0 < k" by simp
    from IH(1) k have a: "k ^ floor_log k (n div k) * k \<le> n"
      by (simp add: less_eq_div_iff_mult_less_eq)
    from IH(2) k have b: "n < k ^ Suc (floor_log k (n div k)) * k"
      by (simp add: div_less_iff_less_mult)
    from False 1 have "floor_log k n = Suc (floor_log k (n div k))"
      by (subst floor_log.simps) simp
    with a b show ?thesis by (simp add: mult.commute)
  qed
qed

lemma floor_log_units:
  assumes "0 < n" and "n < 1024 ^ 4"
  shows "floor_log 1024 n < 4"
proof -
  from floor_log_bounds [of 1024 n] assms(1) have "1024 ^ floor_log 1024 n \<le> n"
    by simp
  from this assms(2) have "(1024::nat) ^ floor_log 1024 n < 1024 ^ 4"
    by (rule order.strict_trans1)
  then show ?thesis
    by (rule power_less_imp_less_exp [rotated]) simp
qed

text \<open>\<open>round_half_up a b\<close> is the integer nearest to \<open>a / b\<close>, a half rounded upwards.\<close>

lemma round_half_up_nearest:
  assumes "0 < b"
  shows "2 * b * round_half_up a b \<le> 2 * a + b \<and> 2 * a + b < 2 * b * Suc (round_half_up a b)"
proof -
  have "2 * b * ((2 * a + b) div (2 * b)) \<le> 2 * a + b" by simp
  moreover have "2 * a + b < 2 * b * Suc ((2 * a + b) div (2 * b))"
    using assms dividend_less_times_div [of "2 * b" "2 * a + b"] by simp
  ultimately show ?thesis by (simp add: round_half_up_def)
qed

lemma fl1536: "floor_log 1024 1536 = 1"
  by (simp add: floor_log.simps)

lemma fl10M: "floor_log 1024 10485760 = 2"
  by (simp add: floor_log.simps)

lemma fl2T: "floor_log 1024 2199023255552 = 4"
  by (simp add: floor_log.simps)

lemma format_1536: "formatFileSize 1536 = lit ''1.5 KB''"
  unfolding formatFileSize_def Let_def fl1536
  by (simp add: round_half_up_def sizes_def hundredths_to_string_def digits.simps digit_unit_def)

lemma format_10M: "formatFileSize 10485760 = lit ''10 MB''"
  unfolding formatFileSize_def Let_def fl10M
  by (simp add: round_half_up_def sizes_def hundredths_to_string_def digits.simps digit_unit_def)

text \<open>
  Claim C8, as the code has it. Zero prints as "0 Bytes". A byte count \<open>n\<close> from 1 up to,
  and not including, \<open>1024 ^ 4\<close> is scaled to the largest of the units Bytes, KB, MB, GB
  that is at most \<open>n\<close> (the unit of index \<open>i\<close> with \<open>1024 ^ i \<le> n < 1024 ^ (i + 1)\<close>), and
  the number printed is \<open>m / 100\<close>, where \<open>m\<close> is \<open>100 * n / 1024 ^ i\<close> rounded to the nearest
  integer, a half upwards. 1536 prints as "1.5 KB" and 10485760 as "10 MB".
\<close>

theorem formatFileSize_scaled:
  "formatFileSize 0 = lit ''0 Bytes'' \<and>
   (0 < n \<and> n < 1024 ^ 4 \<longrightarrow>
      (\<exists>i m. i < 4 \<and> 1024 ^ i \<le> n \<and> n < 1024 ^ Suc i \<and>
             2 * 1024 ^ i * m \<le> 200 * n + 1024 ^ i \<and>
             200 * n + 1024 ^ i < 2 * 1024 ^ i * Suc m \<and>
             formatFileSize n = hundredths_to_string m @ lit '' '' @ sizes ! i)) \<and>
   formatFileSize 1536 = lit ''1.5 KB'' \<and>
   formatFileSize 10485760 = lit ''10 MB''"
proof -
  have zero: "formatFileSize 0 = lit ''0 Bytes''"
    by (simp add: formatFileSize_def)
  have scaled: "\<exists>i m. i < 4 \<and> 1024 ^ i \<le> n \<and> n < 1024 ^ Suc i \<and>
             2 * 1024 ^ i * m \<le> 200 * n + 1024 ^ i \<and>
             200 * n + 1024 ^ i < 2 * 1024 ^ i * Suc m \<and>
             formatFileSize n = hundredths_to_string m @ lit '' '' @ sizes ! i"
    if n: "0 < n" "n < 1024 ^ 4"
  proof -
    let ?i = "floor_log 1024 n"
    let ?m = "round_half_up (n * 100) (1024 ^ ?i)"
    have i: "?i < 4" using n by (rule floor_log_units)
    have b: "1024 ^ ?i \<le> n \<and> n < 1024 ^ Suc ?i"
      using floor_log_bounds [of 1024 n] n by simp
    have r: "2 * 1024 ^ ?i * ?m \<le> 200 * n + 1024 ^ ?i \<and>
             200 * n + 1024 ^ ?i < 2 * 1024 ^ ?i * Suc ?m"
      using round_half_up_nearest [of "1024 ^ ?i" "n * 100"] by (simp add: mult.commute)
    have f: "formatFileSize n = hundredths_to_string ?m @ lit '' '' @ sizes ! ?i"
      using n i by (simp add: formatFileSize_def Let_def sizes_def)
    from i b r f show ?thesis by blast
  qed
  from zero scaled format_1536 format_10M show ?thesis by blast
qed

theorem formatFileSize_scaled_witness:
  "(0::nat) < 5 * 1024 * 1024 \<and> (5 * 1024 * 1024 :: nat) < 1024 ^ 4 \<and>
   (\<exists>i m. i < 4 \<and> 1024 ^ i \<le> (5 * 1024 * 1024 :: nat) \<and>
          (5 * 1024 * 1024 :: nat) < 1024 ^ Suc i \<and>
          formatFileSize (5 * 1024 * 1024) = hundredths_to_string m @ lit '' '' @ sizes ! i)"
  using formatFileSize_scaled [of "5 * 1024 * 1024"] by auto

text \<open>
  The claim as stated fails from \<open>1024 ^ 4\<close> bytes on: the index runs past the four units,
  and two tebibytes print as "2 undefined", not in gigabytes.
\<close>

theorem formatFileSize_two_tebibytes:
  "formatFileSize 2199023255552 = lit ''2 undefined'' \<and>
   formatFileSize 2199023255552 \<noteq> lit ''2048 GB''"
  unfolding formatFileSize_def Let_def fl2T
  by (simp add: round_half_up_def sizes_def hundredths_to_string_def digits.simps digit_unit_def)

subsection \<open>The session identifier\<close>

lemma digits_single: "n < b \<Longrightarrow> digits b n = [digit_unit n]"
  by (simp add: digits.simps)

lemma hex_digit_unit: "n < 16 \<Longrightarrow> is_hex_unit (digit_unit n)"
  by (auto simp: is_hex_unit_def digit_unit_def)

lemma to_int32_nibble:
  assumes "0 \<le> q" and "q < 1"
  shows "0 \<le> to_int32 (q * 16) \<and> to_int32 (q * 16) < 16"
proof -
  have f: "0 \<le> \<lfloor>q * 16\<rfloor>" "\<lfloor>q * 16\<rfloor> < 16"
    using assms by (auto simp: floor_less_iff)
  then have "\<lfloor>q * 16\<rfloor> mod 2 ^ 32 = \<lfloor>q * 16\<rfloor>" by simp
  with f assms show ?thesis
    by (simp add: to_int32_def Let_def)
qed

lemma variant_nibble:
  assumes "0 \<le> r" and "r < 16"
  shows "(r AND 3) OR 8 \<in> {8, 9, 10, 11 :: int}"
proof -
  from assms have "r = 0 \<or> r = 1 \<or> r = 2 \<or> r = 3 \<or> r = 4 \<or> r = 5 \<or> r = 6 \<or> r = 7 \<or>
                   r = 8 \<or> r = 9 \<or> r = 10 \<or> r = 11 \<or> r = 12 \<or> r = 13 \<or> r = 14 \<or> r = 15"
    by arith
  then show ?thesis by auto
qed

lemma replacer_x:
  assumes "0 \<le> q" and "q < 1"
  shows "\<exists>d. uuid_replacer q 120 = [d] \<and> is_hex_unit d"
proof -
  let ?r = "to_int32 (q * 16)"
  from to_int32_nibble [OF assms] have r: "0 \<le> ?r" "nat ?r < 16" by auto
  then have "uuid_replacer q 120 = [digit_unit (nat ?r)]"
    by (simp add: uuid_replacer_def toString16_def digits_single)
  with r show ?thesis by (simp add: hex_digit_unit)
qed

lemma replacer_y:
  assumes "0 \<le> q" and "q < 1"
  shows "\<exists>d. uuid_replacer q 121 = [d] \<and> fits Variant d"
proof -
  let ?v = "(to_int32 (q * 16) AND 3) OR 8"
  from to_int32_nibble [OF assms] have "?v \<in> {8, 9, 10, 11}"
    by (intro variant_nibble) auto
  then have "nat ?v \<in> {8, 9, 10, 11}" "0 \<le> ?v" by auto
  then have "uuid_replacer q 121 = [digit_unit (nat ?v)] \<and> fits Variant (digit_unit (nat ?v))"
    by (auto simp: uuid_replacer_def toString16_def digits_single digit_unit_def Let_def)
  then show ?thesis by blast
qed

lemma replace_xy_shape:
  assumes "\<forall>i. 0 \<le> rnd i \<and> rnd i < 1"
  shows "list_all2 replaced tpl (replace_xy rnd i tpl)"
proof (induction tpl arbitrary: i)
  case Nil
  then show ?case by simp
next
  case (Cons c cs)
  from assms have q: "0 \<le> rnd i" "rnd i < 1" by auto
  consider (x) "c = 120" | (y) "c = 121" | (other) "c \<noteq> 120" "c \<noteq> 121" by blast
  then show ?case
  proof cases
    case x
    from replacer_x [OF q] obtain d where "uuid_replacer (rnd i) 120 = [d]" "is_hex_unit d"
      by blast
    with x Cons.IH [of "Suc i"] show ?thesis by (simp add: replaced_def)
  next
    case y
    from replacer_y [OF q] obtain d where "uuid_replacer (rnd i) 121 = [d]" "fits Variant d"
      by blast
    with y Cons.IH [of "Suc i"] show ?thesis by (simp add: replaced_def)
  next
    case other
    with Cons.IH [of i] show ?thesis by (simp add: replaced_def)
  qed
qed

lemma generated_is_uuid_v4:
  assumes "\<forall>i. 0 \<le> rnd i \<and> rnd i < 1"
  shows "is_uuid_v4 (replace_xy rnd 0 (lit ''xxxxxxxx-xxxx-4xxx-yxxx-xxxxxxxxxxxx''))"
proof -
  have "list_all2 (\<lambda>s c. c = (case s of Hex \<Rightarrow> 120 | Dash \<Rightarrow> 45 | Version4 \<Rightarrow> 52 | Variant \<Rightarrow> 121))
          uuid_v4_shape (lit ''xxxxxxxx-xxxx-4xxx-yxxx-xxxxxxxxxxxx'')"
    by (simp add: uuid_v4_shape_def eval_nat_numeral)
  from this replace_xy_shape [OF assms]
  have "list_all2 fits uuid_v4_shape (replace_xy rnd 0 (lit ''xxxxxxxx-xxxx-4xxx-yxxx-xxxxxxxxxxxx''))"
    by (rule list_all2_trans [rotated]) (auto simp: replaced_def split: uuid_slot.splits)
  then show ?thesis by (simp add: is_uuid_v4_def)
qed

lemma uuid_v4_length: "is_uuid_v4 s \<Longrightarrow> length s = 36"
  by (auto simp: is_uuid_v4_def uuid_v4_shape_def dest: list_all2_lengthD)

text \<open>
  Claim C7, as the code has it. With \<^verbatim>\<open>Math.random\<close> in its range: when the storage has
  no entry under the key, or an empty one, a new identifier is generated that matches
  the UUID version 4 pattern, it is stored under the key and returned, and the next
  bootstrap returns the same identifier and leaves the storage as it is; when the storage
  holds a non-empty identifier, that identifier is returned and the storage is unchanged.
\<close>

theorem getOrCreateSessionId_bootstrap:
  assumes "\<forall>i. 0 \<le> rnd i \<and> rnd i < 1"
  shows "(ls session_key = None \<or> ls session_key = Some [] \<longrightarrow>
            (\<exists>sid. getOrCreateSessionId rnd ls =
                     (sid, ls(session_key \<mapsto> sid), NewSessionCreated sid) \<and>
                   is_uuid_v4 sid \<and>
                   getOrCreateSessionId rnd' (ls(session_key \<mapsto> sid)) =
                     (sid, ls(session_key \<mapsto> sid), ExistingSession sid))) \<and>
         (\<forall>s. ls session_key = Some s \<and> s \<noteq> [] \<longrightarrow>
            getOrCreateSessionId rnd ls = (s, ls, ExistingSession s))"
proof -
  let ?g = "replace_xy rnd 0 (lit ''xxxxxxxx-xxxx-4xxx-yxxx-xxxxxxxxxxxx'')"
  have u: "is_uuid_v4 ?g" using assms by (rule generated_is_uuid_v4)
  then have ne: "?g \<noteq> []" using uuid_v4_length [of ?g] by auto
  have new: "getOrCreateSessionId rnd ls = (?g, ls(session_key \<mapsto> ?g), NewSessionCreated ?g)"
    if "ls session_key = None \<or> ls session_key = Some []"
    using that by (auto simp: getOrCreateSessionId_def Let_def)
  have old: "getOrCreateSessionId r l = (s, l, ExistingSession s)"
    if "l session_key = Some s" "s \<noteq> []" for r l s
    using that by (simp add: getOrCreateSessionId_def Let_def)
  from new u ne old [of "ls(session_key \<mapsto> ?g)" ?g rnd'] old [of ls _ rnd]
  show ?thesis by auto
qed

lemma half_uuid:
  "replace_xy (\<lambda>i. 1 / 2) 0 (lit ''xxxxxxxx-xxxx-4xxx-yxxx-xxxxxxxxxxxx'') =
   lit ''88888888-8888-4888-8888-888888888888''"
  by (simp add: uuid_replacer_def to_int32_def toString16_def digits.simps digit_unit_def)

theorem getOrCreateSessionId_bootstrap_witness:
  "(\<exists>sid. getOrCreateSessionId (\<lambda>i. 1 / 2) Map.empty =
            (sid, [session_key \<mapsto> sid], NewSessionCreated sid) \<and>
          is_uuid_v4 sid \<and>
          getOrCreateSessionId (\<lambda>i. 0) [session_key \<mapsto> sid] =
            (sid, [session_key \<mapsto> sid], ExistingSession sid)) \<and>
   getOrCreateSessionId (\<lambda>i. 1 / 2) [session_key \<mapsto> lit ''abc''] =
     (lit ''abc'', [session_key \<mapsto> lit ''abc''], ExistingSession (lit ''abc'')) \<and>
   fst (getOrCreateSessionId (\<lambda>i. 1 / 2) Map.empty) =
     lit ''88888888-8888-4888-8888-888888888888''"
proof -
  have r: "\<forall>i::nat. (0::rat) \<le> 1 / 2 \<and> (1::rat) / 2 < 1" by simp
  have g: "fst (getOrCreateSessionId (\<lambda>i. 1 / 2) Map.empty) =
             lit ''88888888-8888-4888-8888-888888888888''"
    using half_uuid by (simp add: getOrCreateSessionId_def Let_def)
  from getOrCreateSessionId_bootstrap [OF r, of Map.empty "\<lambda>i. 0"]
    getOrCreateSessionId_bootstrap [OF r, of "[session_key \<mapsto> lit ''abc'']" "\<lambda>i. 0"] g
  show ?thesis by simp
qed

text \<open>
  The claim as stated fails on a stored entry that is the empty string: the entry exists,
  and the bootstrap returns a new identifier and overwrites the entry.
\<close>

theorem empty_stored_identifier_replaced:
  "[session_key \<mapsto> []] session_key = Some [] \<and>
   fst (getOrCreateSessionId (\<lambda>i. 0) [session_key \<mapsto> []]) =
     lit ''00000000-0000-4000-8000-000000000000'' \<and>
   fst (snd (getOrCreateSessionId (\<lambda>i. 0) [session_key \<mapsto> []])) session_key =
     Some (lit ''00000000-0000-4000-8000-000000000000'')"
  by (simp add: getOrCreateSessionId_def Let_def uuid_replacer_def to_int32_def toString16_def
      digits.simps digit_unit_def)

subsection \<open>Installing the worker\<close>

text \<open>
  The promise that the install listener passes to \<^verbatim>\<open>waitUntil\<close> is fulfilled whatever
  happens: the \<^verbatim>\<open>catch\<close> at the end of the chain logs the error and returns.
\<close>

lemma install_listener_fulfils: "snd (install_listener env cache_name st) = Inr ()"
  by (auto simp: install_listener_def Let_def split: prod.splits sum.splits option.splits)

text \<open>
  Claim C2, on the code. One icon of the manifest answers 404, so \<^verbatim>\<open>cache.addAll\<close>
  rejects. The failure is logged once as "Installation failed", nothing is retried (the
  seven requests of the manifest are all the worker sends), \<^verbatim>\<open>skipWaiting\<close> is not called
  and the cache of the generation is left empty; but the promise passed to
  \<^verbatim>\<open>waitUntil\<close> is fulfilled, so the installation is not aborted.
\<close>

theorem install_missing_icon:
  "snd (install_listener missing_icon_env CACHE_NAME sw_initial) = Inr () \<and>
   \<not> installation_aborted (snd (install_listener missing_icon_env CACHE_NAME sw_initial)) \<and>
   console (fst (install_listener missing_icon_env CACHE_NAME sw_initial)) =
     [Installing, CachingAppShell, InstallationFailed (JsError (Some (lit ''Request failed'')))] \<and>
   length (network (fst (install_listener missing_icon_env CACHE_NAME sw_initial))) = 7 \<and>
   caches (fst (install_listener missing_icon_env CACHE_NAME sw_initial)) = [(CACHE_NAME, [])] \<and>
   skipWaiting_calls (fst (install_listener missing_icon_env CACHE_NAME sw_initial)) = 0"
  by (simp add: install_listener_def Let_def missing_icon_env_def sw_initial_def example_origin_def
      cache_addAll_def ASSETS_TO_CACHE_def get_request_def resp_ok_def console_log_def caches_open_def
      installation_aborted_def CACHE_NAME_def)

subsection \<open>Activating the worker\<close>

lemma caches_console_log: "caches (console_log l s) = caches s"
  by (simp add: console_log_def)

lemma fold_delete:
  "caches (fold (\<lambda>cacheName s. (console_log (DeletingOldCache cacheName) s)
                    \<lparr>caches := caches_delete cacheName (caches s)\<rparr>) old st) =
   filter (\<lambda>(n, c). n \<notin> set old) (caches st)"
proof (induction old arbitrary: st)
  case Nil
  then show ?case by simp
next
  case (Cons a old)
  have "filter (\<lambda>(n, c). n \<notin> set old) (caches_delete a (caches st)) =
        filter (\<lambda>(n, c). n \<notin> set (a # old)) (caches st)"
    by (auto simp: caches_delete_def intro: filter_cong)
  then show ?case
    by (simp add: Cons.IH caches_console_log)
qed

lemma activate_caches:
  "caches (activate_listener cur st) = filter (\<lambda>(n, c). n = cur) (caches st)"
proof -
  have "filter (\<lambda>(n, c). n \<notin> set (filter (\<lambda>cacheName. cacheName \<noteq> cur) (caches_keys (caches st))))
          (caches st) = filter (\<lambda>(n, c). n = cur) (caches st)"
    by (rule filter_cong) (force simp: caches_keys_def)+
  then show ?thesis
    by (simp add: activate_listener_def Let_def fold_delete caches_console_log)
qed

text \<open>
  Claim C5, as the code has it. Activation deletes every cache generation whose name is
  not the current one and keeps the current one as it is. So afterwards no generation
  other than the current one remains: exactly one, the current one, when it was there
  before the activation, and none when it was not. With atlas-v1 and atlas-v2 present and
  atlas-v2 current, only atlas-v2 remains.
\<close>

theorem activate_prunes:
  assumes "distinct (caches_keys (caches st))"
  shows "caches (activate_listener cur st) = filter (\<lambda>(n, c). n = cur) (caches st) \<and>
         (\<forall>n. n \<noteq> cur \<longrightarrow> n \<notin> set (caches_keys (caches (activate_listener cur st)))) \<and>
         caches_keys (caches (activate_listener cur st)) =
           (if cur \<in> set (caches_keys (caches st)) then [cur] else []) \<and>
         caches_keys (caches (activate_listener (lit ''atlas-v2'')
           (sw_initial\<lparr>caches := [(lit ''atlas-v1'', []), (lit ''atlas-v2'', [])]\<rparr>))) =
           [lit ''atlas-v2'']"
proof -
  have d: "distinct (map fst cs) \<Longrightarrow>
           map fst (filter (\<lambda>(n, c). n = cur) cs) = (if cur \<in> fst ` set cs then [cur] else [])"
    for cs :: cache_storage
    by (induction cs) (auto simp: rev_image_eqI)
  show ?thesis
    using assms d [of "caches st"]
    by (auto simp: activate_caches caches_keys_def sw_initial_def image_iff)
qed

theorem activate_prunes_witness:
  "distinct (caches_keys (caches (sw_initial\<lparr>caches :=
      [(lit ''atlas-v2.9.0'', [(lit ''/'', \<lparr>resp_status = 200, resp_body = []\<rparr>)]),
       (CACHE_NAME, [])]\<rparr>))) \<and>
   caches (activate_listener CACHE_NAME (sw_initial\<lparr>caches :=
      [(lit ''atlas-v2.9.0'', [(lit ''/'', \<lparr>resp_status = 200, resp_body = []\<rparr>)]),
       (CACHE_NAME, [])]\<rparr>)) = [(CACHE_NAME, [])]"
  using activate_prunes [of "sw_initial\<lparr>caches :=
      [(lit ''atlas-v2.9.0'', [(lit ''/'', \<lparr>resp_status = 200, resp_body = []\<rparr>)]),
       (CACHE_NAME, [])]\<rparr>" CACHE_NAME]
  by (simp add: caches_keys_def sw_initial_def CACHE_NAME_def)

text \<open>
  The claim as stated fails when the current generation is not in the cache storage at
  activation: with atlas-v1 alone present and atlas-v2 current, nothing remains.
\<close>

theorem activate_without_current:
  "caches_keys (caches (sw_initial\<lparr>caches := [(lit ''atlas-v1'', [])]\<rparr>)) = [lit ''atlas-v1''] \<and>
   caches_keys (caches (activate_listener (lit ''atlas-v2'')
      (sw_initial\<lparr>caches := [(lit ''atlas-v1'', [])]\<rparr>))) = []"
  by (simp add: activate_caches caches_keys_def sw_initial_def)

text \<open>
  Such an activation can follow an install: when \<^verbatim>\<open>caches.open\<close> rejects, the install
  listener logs the failure, its promise is fulfilled all the same, and the activation that
  follows deletes the old generation and leaves no generation at all.
\<close>

lemma activation_after_rejected_open:
  "snd (install_listener rejected_open_env (lit ''atlas-v2'')
          (sw_initial\<lparr>caches := [(lit ''atlas-v1'', [])]\<rparr>)) = Inr () \<and>
   caches_keys (caches (activate_listener (lit ''atlas-v2'')
     (fst (install_listener rejected_open_env (lit ''atlas-v2'')
          (sw_initial\<lparr>caches := [(lit ''atlas-v1'', [])]\<rparr>))))) = []"
  by (simp add: activate_caches caches_keys_def sw_initial_def install_listener_def Let_def
      rejected_open_env_def console_log_def)

subsection \<open>Answering a fetch\<close>

text \<open>
  Claim C4. A GET request outside the webhook path whose URL has an entry in the cache is
  answered with that entry, and no request goes to the network. A request whose URL
  contains the webhook path segment is not intercepted, whatever the cache holds: the
  listener returns without \<^verbatim>\<open>respondWith\<close>, the request goes to the network and the page
  gets the network's answer. A request whose method is not GET is not intercepted either.
\<close>

theorem fetch_cache_first:
  "(request_method q = lit ''GET'' \<and> \<not> includes_str (url q) (lit ''/webhook/'') \<and>
    caches_match (url q) (caches st) = Some r \<longrightarrow>
      handle_fetch env cn q st = (console_log (ServingFromCache (url q)) st, Some r) \<and>
      network (fst (handle_fetch env cn q st)) = network st) \<and>
   (includes_str (url q) (lit ''/webhook/'') \<longrightarrow>
      fetch_listener env cn q st = (st, NotIntercepted) \<and>
      network (fst (handle_fetch env cn q st)) = network st @ [q] \<and>
      snd (handle_fetch env cn q st) = (case net env q of Inl e \<Rightarrow> None | Inr x \<Rightarrow> Some x)) \<and>
   (request_method q \<noteq> lit ''GET'' \<longrightarrow>
      fetch_listener env cn q st = (st, NotIntercepted) \<and>
      network (fst (handle_fetch env cn q st)) = network st @ [q])"
  by (auto simp: handle_fetch_def fetch_listener_def console_log_def)

lemmas sw_examples = populated_def sw_initial_def get_style_def get_webhook_def post_style_def
  fresh_env_def example_origin_def CACHE_NAME_def

theorem fetch_cache_first_witness:
  "caches_match (url get_style) (caches populated) =
     Some \<lparr>resp_status = 200, resp_body = lit ''cached''\<rparr> \<and>
   snd (handle_fetch fresh_env CACHE_NAME get_style populated) =
     Some \<lparr>resp_status = 200, resp_body = lit ''cached''\<rparr> \<and>
   network (fst (handle_fetch fresh_env CACHE_NAME get_style populated)) = [] \<and>
   caches_match (url get_webhook) (caches populated) =
     Some \<lparr>resp_status = 200, resp_body = lit ''stale''\<rparr> \<and>
   fetch_listener fresh_env CACHE_NAME get_webhook populated = (populated, NotIntercepted) \<and>
   network (fst (handle_fetch fresh_env CACHE_NAME get_webhook populated)) = [get_webhook] \<and>
   snd (handle_fetch fresh_env CACHE_NAME get_webhook populated) =
     Some \<lparr>resp_status = 200, resp_body = lit ''fresh''\<rparr> \<and>
   fetch_listener fresh_env CACHE_NAME post_style populated = (populated, NotIntercepted)"
proof -
  have m: "request_method get_style = lit ''GET''" "request_method post_style \<noteq> lit ''GET''"
    by (simp_all add: get_style_def post_style_def)
  have w: "\<not> includes_str (url get_style) (lit ''/webhook/'')"
    "includes_str (url get_webhook) (lit ''/webhook/'')"
    by (simp_all add: get_style_def get_webhook_def example_origin_def)
  have c: "caches_match (url get_style) (caches populated) =
             Some \<lparr>resp_status = 200, resp_body = lit ''cached''\<rparr>"
    "caches_match (url get_webhook) (caches populated) =
             Some \<lparr>resp_status = 200, resp_body = lit ''stale''\<rparr>"
    by (simp_all add: sw_examples)
  have n: "network populated = []"
    "net fresh_env get_webhook = Inr \<lparr>resp_status = 200, resp_body = lit ''fresh''\<rparr>"
    by (simp_all add: sw_examples)
  from fetch_cache_first [of get_style populated "\<lparr>resp_status = 200, resp_body = lit ''cached''\<rparr>"
      fresh_env CACHE_NAME]
    fetch_cache_first [of get_webhook populated _ fresh_env CACHE_NAME]
    fetch_cache_first [of post_style populated _ fresh_env CACHE_NAME]
    m w c n
  show ?thesis by (simp add: console_log_def)
qed

end
